theory Spec2Isabelle
  imports Complex_Main
begin

section \<open>JavaScript values used by the prayer selector\<close>

subsection \<open>Strings\<close>

text \<open>
  A JavaScript string is a sequence of UTF-16 code units; \<open>includes\<close>, \<open>split\<close> and
  \<open>===\<close> work on code units. The Arabic labels of the source lie outside the range of
  \<^typ>\<open>char\<close>, so a string is a list of code units, each a natural number.
  \<open>str\<close> embeds an ASCII literal.
\<close>

type_synonym jsstring = "nat list"

definition str :: "string \<Rightarrow> jsstring" where
  "str s = map of_char s"

text \<open>\<open>s.startsWith(n)\<close> and \<open>s.includes(n)\<close>: \<open>n\<close> occurs in \<open>s\<close> as a contiguous block.\<close>

fun startsWith :: "jsstring \<Rightarrow> jsstring \<Rightarrow> bool" where
  "startsWith s [] = True"
| "startsWith [] (n # ns) = False"
| "startsWith (c # cs) (n # ns) = (c = n \<and> startsWith cs ns)"

fun includes_str :: "jsstring \<Rightarrow> jsstring \<Rightarrow> bool" where
  "includes_str [] n = (n = [])"
| "includes_str (c # cs) n = (startsWith (c # cs) n \<or> includes_str cs n)"

text \<open>
  \<open>s.toLowerCase()\<close>. The source only compares the result with the ASCII literal
  \<open>'maghrib'\<close>. ASCII capitals are mapped to their small letters, and so is U+212A
  (KELVIN SIGN), the one code unit outside ASCII whose lower case is an ASCII letter alone.
  Every other code unit is kept: its lower case in JavaScript still holds a unit outside
  ASCII, so the comparison with an ASCII literal comes out the same.
\<close>

definition lowerUnit :: "nat \<Rightarrow> nat" where
  "lowerUnit c = (if 65 \<le> c \<and> c \<le> 90 then c + 32 else if c = 0x212A then 0x6B else c)"

definition toLowerCase :: "jsstring \<Rightarrow> jsstring" where
  "toLowerCase s = map lowerUnit s"

text \<open>
  \<open>s.split(sep)\<close> for a separator of one code unit (the source splits at \<open>':'\<close>, unit 58):
  the pieces between the separators, in order; the empty string gives one empty piece.
\<close>

fun split :: "nat \<Rightarrow> jsstring \<Rightarrow> jsstring list" where
  "split sep [] = [[]]"
| "split sep (c # cs) =
     (if c = sep then [] # split sep cs
      else (case split sep cs of
              [] \<Rightarrow> [[c]]
            | w # ws \<Rightarrow> (c # w) # ws))"

subsection \<open>Numbers\<close>

text \<open>
  The numbers of the prayer selector are minute counts: integers, \<open>NaN\<close> (from a piece of
  a time string that is no number, or from a missing piece) and \<open>Infinity\<close> (the initial
  \<open>minDiff\<close>). \<open>Num k\<close> is the double holding the integer \<open>k\<close>; integer arithmetic on
  doubles is exact below \<open>2^53\<close>. The two zeros are not told apart: no comparison of the
  source does.
\<close>

datatype jsnum = NaN | NegInf | Num int | PosInf

fun jadd :: "jsnum \<Rightarrow> jsnum \<Rightarrow> jsnum" where
  "jadd (Num a) (Num b) = Num (a + b)"
| "jadd NaN _ = NaN"
| "jadd _ NaN = NaN"
| "jadd PosInf NegInf = NaN"
| "jadd NegInf PosInf = NaN"
| "jadd PosInf _ = PosInf"
| "jadd _ PosInf = PosInf"
| "jadd NegInf _ = NegInf"
| "jadd _ NegInf = NegInf"

fun jsub :: "jsnum \<Rightarrow> jsnum \<Rightarrow> jsnum" where
  "jsub (Num a) (Num b) = Num (a - b)"
| "jsub NaN _ = NaN"
| "jsub _ NaN = NaN"
| "jsub PosInf PosInf = NaN"
| "jsub NegInf NegInf = NaN"
| "jsub PosInf _ = PosInf"
| "jsub _ PosInf = NegInf"
| "jsub NegInf _ = NegInf"
| "jsub _ NegInf = PosInf"

fun jmul :: "jsnum \<Rightarrow> jsnum \<Rightarrow> jsnum" where
  "jmul (Num a) (Num b) = Num (a * b)"
| "jmul NaN _ = NaN"
| "jmul _ NaN = NaN"
| "jmul PosInf (Num b) = (if b = 0 then NaN else if 0 < b then PosInf else NegInf)"
| "jmul NegInf (Num b) = (if b = 0 then NaN else if 0 < b then NegInf else PosInf)"
| "jmul (Num a) PosInf = (if a = 0 then NaN else if 0 < a then PosInf else NegInf)"
| "jmul (Num a) NegInf = (if a = 0 then NaN else if 0 < a then NegInf else PosInf)"
| "jmul PosInf PosInf = PosInf"
| "jmul NegInf NegInf = PosInf"
| "jmul PosInf NegInf = NegInf"
| "jmul NegInf PosInf = NegInf"

text \<open>\<open>a < b\<close> and \<open>a > b\<close>: false as soon as one side is \<open>NaN\<close>.\<close>

fun jlt :: "jsnum \<Rightarrow> jsnum \<Rightarrow> bool" where
  "jlt (Num a) (Num b) = (a < b)"
| "jlt NaN _ = False"
| "jlt _ NaN = False"
| "jlt _ NegInf = False"
| "jlt NegInf _ = True"
| "jlt PosInf _ = False"
| "jlt _ PosInf = True"

definition jgt :: "jsnum \<Rightarrow> jsnum \<Rightarrow> bool" where
  "jgt a b = jlt b a"

text \<open>
  \<open>Number(s)\<close> on the pieces of a time string. The \<open>time\<close> field is declared as
  \<open>HH:mm\<close> (24h), so the pieces are runs of decimal digits: such a run is its decimal
  value (exact up to 15 digits) and the empty string is 0, as in JavaScript. Any other
  string is taken to \<open>NaN\<close>; JavaScript also reads signs, blanks, fractions, exponents and
  radix prefixes, which the declared format excludes.
\<close>

definition isDigit :: "nat \<Rightarrow> bool" where
  "isDigit c = (48 \<le> c \<and> c \<le> 57)"

definition Number :: "jsstring \<Rightarrow> jsnum" where
  "Number s =
     (if list_all isDigit s then Num (int (foldl (\<lambda>v c. 10 * v + (c - 48)) 0 s)) else NaN)"

section \<open>The data of a day (types.ts)\<close>

record PrayerTime =
  name :: jsstring
  nameArabic :: jsstring
  time :: jsstring
  isNext :: "bool option"

record HijriDateInfo =
  day :: int
  month :: jsstring
  year :: int
  dayNameArabic :: jsstring
  fullString :: jsstring

record DailyData =
  gregorianDate :: jsstring
  hijri :: HijriDateInfo
  prayers :: "PrayerTime list"
  city :: jsstring
  timezone :: "jsstring option"
  quote :: "jsstring option"

text \<open>
  What \<open>markNextPrayer\<close> reads of a \<open>Date\<close>: the text of its calendar day and its
  local hour and minute.
\<close>

record JSDate =
  toDateString :: jsstring
  getHours :: int
  getMinutes :: int

section \<open>markNextPrayer (App.tsx)\<close>

text \<open>The Arabic labels the source searches for, as code units.\<close>

definition label_maghrib :: jsstring where
  "label_maghrib = [0x627, 0x644, 0x645, 0x63A, 0x631, 0x628]"

definition label_midnight :: jsstring where
  "label_midnight = [0x646, 0x635, 0x641, 0x20, 0x627, 0x644, 0x644, 0x64A, 0x644]"

definition label_lastThird :: jsstring where
  "label_lastThird =
     [0x627, 0x644, 0x62B, 0x644, 0x62B, 0x20, 0x627, 0x644, 0x623, 0x62E, 0x64A, 0x631]"

definition label_isha :: jsstring where
  "label_isha = [0x627, 0x644, 0x639, 0x634, 0x627, 0x621]"

text \<open>
  \<open>const [h, m] = t.split(':').map(Number); h * 60 + m\<close>, which the source writes once for
  Maghrib and once in the loop. A string with no colon leaves \<open>m\<close> undefined and the sum
  is \<open>NaN\<close>; pieces after the second are ignored.
\<close>

definition parseMinutes :: "jsstring \<Rightarrow> jsnum" where
  "parseMinutes t =
     (case map Number (split 58 t) of
        h # m # _ \<Rightarrow> jadd (jmul h (Num 60)) m
      | _ \<Rightarrow> NaN)"

text \<open>The predicate of \<open>data.prayers.find\<close> (lines 46-48).\<close>

definition isMaghrib :: "PrayerTime \<Rightarrow> bool" where
  "isMaghrib p =
     (toLowerCase (name p) = str ''maghrib'' \<or> includes_str (nameArabic p) label_maghrib)"

text \<open>Lines 46-54: the night boundary, 18:00 when no entry is found.\<close>

definition maghribMinutes :: "PrayerTime list \<Rightarrow> jsnum" where
  "maghribMinutes ps =
     (case find isMaghrib ps of
        None \<Rightarrow> Num (18 * 60)
      | Some maghrib \<Rightarrow> parseMinutes (time maghrib))"

text \<open>Lines 64-66.\<close>

definition isNightPrayer :: "PrayerTime \<Rightarrow> bool" where
  "isNightPrayer p =
     (name p \<in> set [str ''Midnight'', str ''LastThird'', str ''Isha''] \<or>
      list_ex (\<lambda>n. includes_str (nameArabic p) n) [label_midnight, label_lastThird, label_isha])"

text \<open>Lines 57-72: the value of \<open>prayerMinutes\<close> when line 76 compares it.\<close>

definition prayerMinutes :: "jsnum \<Rightarrow> PrayerTime \<Rightarrow> jsnum" where
  "prayerMinutes mm p =
     (let pm = parseMinutes (time p) in
      if isNightPrayer p \<and> jlt pm mm then jadd pm (Num (24 * 60)) else pm)"

text \<open>
  Lines 74-82: one round of the \<open>forEach\<close>, on the pair of the loop's two variables
  \<open>(nextPrayerIndex, minDiff)\<close>.
\<close>

definition forEachBody :: "jsnum \<Rightarrow> jsnum \<Rightarrow> int \<times> jsnum \<Rightarrow> PrayerTime \<Rightarrow> nat \<Rightarrow> int \<times> jsnum" where
  "forEachBody mm currentMinutes st p idx =
     (let pm = prayerMinutes mm p in
      if jgt pm currentMinutes then
        (let diff = jsub pm currentMinutes in
         if jlt diff (snd st) then (int idx, diff) else st)
      else st)"

text \<open>\<open>xs.forEach((p, idx) => ...)\<close> and \<open>xs.map((p, idx) => ...)\<close>, counting from \<open>idx\<close>.\<close>

fun forEach :: "('s \<Rightarrow> 'a \<Rightarrow> nat \<Rightarrow> 's) \<Rightarrow> 'a list \<Rightarrow> nat \<Rightarrow> 's \<Rightarrow> 's" where
  "forEach f [] idx st = st"
| "forEach f (p # ps) idx st = forEach f ps (Suc idx) (f st p idx)"

fun mapIdx :: "('a \<Rightarrow> nat \<Rightarrow> 'b) \<Rightarrow> 'a list \<Rightarrow> nat \<Rightarrow> 'b list" where
  "mapIdx f [] idx = []"
| "mapIdx f (p # ps) idx = f p idx # mapIdx f ps (Suc idx)"

text \<open>Lines 39-86: the index that is flagged when the viewed day is today.\<close>

definition nextPrayerIndex :: "JSDate \<Rightarrow> PrayerTime list \<Rightarrow> int" where
  "nextPrayerIndex now ps =
     (let currentMinutes = Num (getHours now * 60 + getMinutes now);
          found = fst (forEach (forEachBody (maghribMinutes ps) currentMinutes) ps 0 (- 1, PosInf))
      in if found = - 1 then 0 else found)"

text \<open>
  The whole function. The source reads the clock itself (\<open>new Date()\<close>); here the clock's
  reading \<open>now\<close> is the first argument.
\<close>

definition markNextPrayer :: "JSDate \<Rightarrow> DailyData \<Rightarrow> JSDate \<Rightarrow> DailyData" where
  "markNextPrayer now data targetDate =
     (let isToday = (toDateString targetDate = toDateString now) in
      if \<not> isToday then
        data\<lparr>prayers := map (\<lambda>p. p\<lparr>isNext := Some False\<rparr>) (prayers data)\<rparr>
      else
        data\<lparr>prayers :=
          mapIdx (\<lambda>p idx. p\<lparr>isNext := Some (int idx = nextPrayerIndex now (prayers data))\<rparr>)
            (prayers data) 0\<rparr>)"

section \<open>The fallback schedule (constants.ts)\<close>

definition mkPrayer :: "string \<Rightarrow> jsstring \<Rightarrow> string \<Rightarrow> PrayerTime" where
  "mkPrayer n a t = \<lparr>name = str n, nameArabic = a, time = str t, isNext = None\<rparr>"

definition FALLBACK_DATA :: DailyData where
  "FALLBACK_DATA =
     \<lparr>gregorianDate = str ''Jumat, 2 Januari 2026'',
      hijri = \<lparr>day = 13, month = str ''Rajab'', year = 1447,
               dayNameArabic = [0x627, 0x644, 0x62C, 0x645, 0x639, 0x629],
               fullString = [0x661, 0x663, 0x20, 0x631, 0x62C, 0x628, 0x20,
                             0x661, 0x664, 0x664, 0x667]\<rparr>,
      prayers =
        [mkPrayer ''Fajr'' [0x627, 0x644, 0x641, 0x62C, 0x631] ''04:15'',
         mkPrayer ''Shuruq'' [0x627, 0x644, 0x634, 0x631, 0x648, 0x642] ''05:35'',
         mkPrayer ''Duha'' [0x627, 0x644, 0x636, 0x62D, 0x649] ''06:00'',
         mkPrayer ''Dhuhr'' [0x627, 0x644, 0x638, 0x647, 0x631] ''11:55'',
         mkPrayer ''Asr'' [0x627, 0x644, 0x639, 0x635, 0x631] ''15:20'',
         mkPrayer ''Maghrib'' label_maghrib ''18:05'',
         mkPrayer ''Isha'' label_isha ''19:20'',
         mkPrayer ''Midnight'' label_midnight ''23:45'',
         mkPrayer ''LastThird'' label_lastThird ''01:15''],
      city = str ''Jakarta (Default)'',
      timezone = None,
      quote = Some (str ''Memuat data terkini...'')\<rparr>"

section \<open>QiblaCompass\<close>

subsection \<open>Doubles and the platform's arithmetic\<close>

text \<open>
  The numbers of the compass are doubles. A finite double is the real number it denotes,
  \<open>NaN\<close> is a value of its own. The two zeros are not told apart and no overflow is
  modelled: for coordinates in degrees none occurs.
\<close>

datatype dbl = DNaN | D real

text \<open>
  What the platform supplies and the source does not define: the rounding of an exact
  result to the nearest double, the constant \<open>Math.PI\<close> and the functions \<open>Math.sin\<close>,
  \<open>Math.cos\<close>, \<open>Math.sqrt\<close> (on numbers that are not negative) and \<open>Math.atan2\<close>, which
  ECMAScript leaves to the implementation up to an approximation.
\<close>

record Platform =
  rnd :: "real \<Rightarrow> real"
  Math_PI :: real
  Math_sin :: "real \<Rightarrow> real"
  Math_cos :: "real \<Rightarrow> real"
  Math_sqrt :: "real \<Rightarrow> real"
  Math_atan2 :: "real \<Rightarrow> real \<Rightarrow> real"

text \<open>An operation on doubles is \<open>NaN\<close> as soon as an operand is.\<close>

fun num1 :: "(real \<Rightarrow> real) \<Rightarrow> dbl \<Rightarrow> dbl" where
  "num1 f (D x) = D (f x)"
| "num1 f DNaN = DNaN"

fun num2 :: "(real \<Rightarrow> real \<Rightarrow> real) \<Rightarrow> dbl \<Rightarrow> dbl \<Rightarrow> dbl" where
  "num2 f (D x) (D y) = D (f x y)"
| "num2 f _ _ = DNaN"

text \<open>\<open>+\<close>, \<open>-\<close>, \<open>*\<close> and \<open>/\<close>: the exact result, rounded. The source divides by 180, by 2
  and by \<open>Math.PI\<close> only; a division by 0 is taken to \<open>NaN\<close>.\<close>

definition fadd :: "Platform \<Rightarrow> dbl \<Rightarrow> dbl \<Rightarrow> dbl" where
  "fadd P = num2 (\<lambda>x y. rnd P (x + y))"

definition fsub :: "Platform \<Rightarrow> dbl \<Rightarrow> dbl \<Rightarrow> dbl" where
  "fsub P = num2 (\<lambda>x y. rnd P (x - y))"

definition fmul :: "Platform \<Rightarrow> dbl \<Rightarrow> dbl \<Rightarrow> dbl" where
  "fmul P = num2 (\<lambda>x y. rnd P (x * y))"

fun fdiv :: "Platform \<Rightarrow> dbl \<Rightarrow> dbl \<Rightarrow> dbl" where
  "fdiv P (D x) (D y) = (if y = 0 then DNaN else D (rnd P (x / y)))"
| "fdiv P _ _ = DNaN"

text \<open>\<open>Math.sqrt\<close> of a negative number is \<open>NaN\<close>.\<close>

fun jsSqrt :: "Platform \<Rightarrow> dbl \<Rightarrow> dbl" where
  "jsSqrt P (D x) = (if x < 0 then DNaN else D (Math_sqrt P x))"
| "jsSqrt P DNaN = DNaN"

text \<open>
  \<open>a % b\<close> on numbers: what is left of \<open>a\<close> after taking \<open>b\<close> as often as the
  quotient, cut towards zero, says. The result is a double, so nothing is rounded.
\<close>

definition fmod :: "real \<Rightarrow> real \<Rightarrow> real" where
  "fmod a b = a - b * of_int (if 0 \<le> a / b then \<lfloor>a / b\<rfloor> else \<lceil>a / b\<rceil>)"

fun jsMod :: "dbl \<Rightarrow> dbl \<Rightarrow> dbl" where
  "jsMod (D a) (D b) = (if b = 0 then DNaN else D (fmod a b))"
| "jsMod _ _ = DNaN"

text \<open>\<open>Math.round\<close>: the nearest integer, a half going up; \<open>NaN\<close> stays \<open>NaN\<close>.\<close>

definition js_round :: "real \<Rightarrow> real" where
  "js_round x = of_int \<lfloor>x + 1 / 2\<rfloor>"

definition jsRound :: "dbl \<Rightarrow> dbl" where
  "jsRound = num1 js_round"

subsection \<open>The component and calculateQibla\<close>

record CompassState =
  rawHeading :: real
  smoothHeading :: real
  lastHeadingRef :: real
  qiblaBearing :: dbl
  distance :: dbl

text \<open>The two literals are the doubles nearest to the decimals written in the source.\<close>

definition KAABA_LAT :: "Platform \<Rightarrow> dbl" where
  "KAABA_LAT P = D (rnd P 21.422487)"

definition KAABA_LNG :: "Platform \<Rightarrow> dbl" where
  "KAABA_LNG P = D (rnd P 39.826206)"

definition toRad :: "Platform \<Rightarrow> dbl \<Rightarrow> dbl" where
  "toRad P deg = fdiv P (fmul P deg (D (Math_PI P))) (D 180)"

definition toDeg :: "Platform \<Rightarrow> dbl \<Rightarrow> dbl" where
  "toDeg P rad = fdiv P (fmul P rad (D 180)) (D (Math_PI P))"

text \<open>
  \<open>calculateQibla\<close> (lines 109-142) for the observer \<open>(lat, lng)\<close>; the two setters are
  the two fields of the state it updates. Every operation of the source is one
  operation here, in the order JavaScript evaluates them.
\<close>

definition calculateQibla :: "Platform \<Rightarrow> dbl \<Rightarrow> dbl \<Rightarrow> CompassState \<Rightarrow> CompassState" where
  "calculateQibla P lat lng st =
     (let phi1 = toRad P lat;
          phi2 = toRad P (KAABA_LAT P);
          deltaLambda = toRad P (fsub P (KAABA_LNG P) lng);
          lambda1 = toRad P lng;
          lambda2 = toRad P (KAABA_LNG P);
          y = fmul P (num1 (Math_sin P) deltaLambda) (num1 (Math_cos P) phi2);
          x = fsub P
                (fmul P (num1 (Math_cos P) phi1) (num1 (Math_sin P) phi2))
                (fmul P (fmul P (num1 (Math_sin P) phi1) (num1 (Math_cos P) phi2))
                        (num1 (Math_cos P) deltaLambda));
          bearing0 = toDeg P (num2 (Math_atan2 P) y x);
          bearing = jsMod (fadd P bearing0 (D 360)) (D 360);
          R = D 6371;
          dLat = fsub P phi2 phi1;
          dLon = fsub P lambda2 lambda1;
          a = fadd P
                (fmul P (num1 (Math_sin P) (fdiv P dLat (D 2)))
                        (num1 (Math_sin P) (fdiv P dLat (D 2))))
                (fmul P (fmul P (fmul P (num1 (Math_cos P) phi1) (num1 (Math_cos P) phi2))
                                (num1 (Math_sin P) (fdiv P dLon (D 2))))
                        (num1 (Math_sin P) (fdiv P dLon (D 2))));
          c = fmul P (D 2) (num2 (Math_atan2 P) (jsSqrt P a) (jsSqrt P (fsub P (D 1) a)));
          d = fmul P R c
      in st\<lparr>qiblaBearing := bearing, distance := jsRound d\<rparr>)"

text \<open>The haversine term \<open>a\<close> of \<open>calculateQibla\<close>, by itself.\<close>

definition haversine_a :: "Platform \<Rightarrow> dbl \<Rightarrow> dbl \<Rightarrow> dbl" where
  "haversine_a P lat lng =
     (let phi1 = toRad P lat;
          phi2 = toRad P (KAABA_LAT P);
          dLat = fsub P phi2 phi1;
          dLon = fsub P (toRad P (KAABA_LNG P)) (toRad P lng)
      in fadd P
           (fmul P (num1 (Math_sin P) (fdiv P dLat (D 2)))
                   (num1 (Math_sin P) (fdiv P dLat (D 2))))
           (fmul P (fmul P (fmul P (num1 (Math_cos P) phi1) (num1 (Math_cos P) phi2))
                           (num1 (Math_sin P) (fdiv P dLon (D 2))))
                   (num1 (Math_sin P) (fdiv P dLon (D 2)))))"

text \<open>
  What IEEE 754 and ECMAScript fix of the platform and the theorems below use: 0, 1 and
  360 are doubles, a double rounds to itself, \<open>Math.PI\<close> is positive, and the values
  of the four functions at 0 and 1.
\<close>

definition ieee_ecma :: "Platform \<Rightarrow> bool" where
  "ieee_ecma P =
     (rnd P 0 = 0 \<and> rnd P 1 = 1 \<and> rnd P 360 = 360 \<and>
      (\<forall>x. rnd P (rnd P x) = rnd P x) \<and>
      0 < Math_PI P \<and>
      Math_sin P 0 = 0 \<and> Math_cos P 0 = 1 \<and>
      Math_sqrt P 0 = 0 \<and> Math_sqrt P 1 = 1 \<and>
      Math_atan2 P 0 0 = 0 \<and> Math_atan2 P 0 1 = 0)"

text \<open>
  The arithmetic of the formulas on paper: nothing is rounded and the functions are the
  exact ones. \<open>atan2\<close> is the angle of the point \<open>(x, y)\<close>, in \<open>(-pi, pi]\<close>, and 0
  at the origin.
\<close>

definition atan2 :: "real \<Rightarrow> real \<Rightarrow> real" where
  "atan2 y x =
     (if 0 < x then arctan (y / x)
      else if x < 0 then (if 0 \<le> y then arctan (y / x) + pi else arctan (y / x) - pi)
      else if 0 < y then pi / 2
      else if y < 0 then - (pi / 2)
      else 0)"

definition exactPlatform :: Platform where
  "exactPlatform =
     \<lparr>rnd = (\<lambda>x. x), Math_PI = pi, Math_sin = sin, Math_cos = cos,
      Math_sqrt = sqrt, Math_atan2 = atan2\<rparr>"

subsection \<open>The orientation sensor\<close>

text \<open>
  A device-orientation event, as \<open>handleOrientation\<close> reads it: the WebKit compass
  heading (absent on other platforms), the \<open>absolute\<close> flag and \<open>alpha\<close> (\<open>None\<close> is
  \<open>null\<close>). Headings are finite numbers, taken as the reals they denote; the filter
  only adds and subtracts them and 360.
\<close>

record OrientationEvent =
  webkitCompassHeading :: "real option"
  absolute :: bool
  alpha :: "real option"

text \<open>\<open>if (v)\<close> on a number that may be absent: absent and 0 are both false.\<close>

definition truthy :: "real option \<Rightarrow> bool" where
  "truthy v = (case v of None \<Rightarrow> False | Some h \<Rightarrow> h \<noteq> 0)"

text \<open>Lines 158-171: the value of \<open>compass\<close> after the three branches.\<close>

definition compassOf :: "OrientationEvent \<Rightarrow> real" where
  "compassOf e =
     (let compass = 0 in
      if truthy (webkitCompassHeading e) then the (webkitCompassHeading e)
      else if absolute e \<and> alpha e \<noteq> None then \<bar>the (alpha e) - 360\<bar>
      else if alpha e \<noteq> None then \<bar>the (alpha e) - 360\<bar>
      else compass)"

text \<open>Lines 157-193.\<close>

definition handleOrientation :: "OrientationEvent \<Rightarrow> CompassState \<Rightarrow> CompassState" where
  "handleOrientation e st =
     (let compass = compassOf e;
          currentRaw = compass;
          previousRaw = lastHeadingRef st;
          delta = currentRaw - previousRaw;
          delta1 = (if delta < - 180 then delta + 360 else delta);
          delta2 = (if delta1 > 180 then delta1 - 360 else delta1)
      in st\<lparr>rawHeading := compass,
            smoothHeading := smoothHeading st + delta2,
            lastHeadingRef := currentRaw\<rparr>)"

text \<open>Lines 94-100: the state a freshly mounted compass starts from.\<close>

definition initialState :: CompassState where
  "initialState =
     \<lparr>rawHeading = 0, smoothHeading = 0, lastHeadingRef = 0,
      qiblaBearing = D 0, distance = D 0\<rparr>"

text \<open>Lines 153-155: the reset when the compass is opened.\<close>

definition resetHeading :: "CompassState \<Rightarrow> CompassState" where
  "resetHeading st = st\<lparr>lastHeadingRef := 0, smoothHeading := 0, rawHeading := 0\<rparr>"

text \<open>The events are handled one after the other, in the order they arrive.\<close>

definition handleAll :: "OrientationEvent list \<Rightarrow> CompassState \<Rightarrow> CompassState" where
  "handleAll es st = foldl (\<lambda>s e. handleOrientation e s) st es"


section \<open>Properties of the prayer selector\<close>

subsection \<open>Auxiliary facts\<close>

text \<open>
  \<open>includes_str\<close> is the substring test on code units.
\<close>

lemma startsWith_iff: "startsWith s n \<longleftrightarrow> (\<exists>b. s = n @ b)"
  by (induction s n rule: startsWith.induct) auto

lemma includes_str_iff: "includes_str s n \<longleftrightarrow> (\<exists>a b. s = a @ n @ b)"
proof (induction s)
  case Nil
  then show ?case by auto
next
  case (Cons c cs)
  show ?case
  proof
    assume "includes_str (c # cs) n"
    then consider "startsWith (c # cs) n" | "includes_str cs n" by auto
    then show "\<exists>a b. c # cs = a @ n @ b"
    proof cases
      case 1
      then obtain b where "c # cs = n @ b" by (auto simp add: startsWith_iff)
      then have "c # cs = [] @ n @ b" by simp
      then show ?thesis by blast
    next
      case 2
      with Cons.IH obtain a b where "cs = a @ n @ b" by auto
      then have "c # cs = (c # a) @ n @ b" by simp
      then show ?thesis by blast
    qed
  next
    assume "\<exists>a b. c # cs = a @ n @ b"
    then obtain a b where ab: "c # cs = a @ n @ b" by blast
    show "includes_str (c # cs) n"
    proof (cases a)
      case Nil
      with ab have "startsWith (c # cs) n" by (auto simp add: startsWith_iff)
      then show ?thesis by simp
    next
      case (Cons x a')
      with ab have "cs = a' @ n @ b" by simp
      with Cons.IH have "includes_str cs n" by blast
      then show ?thesis by simp
    qed
  qed
qed

text \<open>
  The loop only ever stores the index of an entry it has visited, so the index it
  leaves is \<open>-1\<close> or the position of an entry.
\<close>

lemma forEachBody_fst:
  "fst (forEachBody mm cur st p idx) = fst st \<or> fst (forEachBody mm cur st p idx) = int idx"
  by (simp add: forEachBody_def Let_def)

lemma forEach_index_range:
  "fst (forEach (forEachBody mm cur) ps i st) = fst st \<or>
   (int i \<le> fst (forEach (forEachBody mm cur) ps i st) \<and>
    fst (forEach (forEachBody mm cur) ps i st) < int i + int (length ps))"
proof (induction ps arbitrary: i st)
  case Nil
  then show ?case by simp
next
  case (Cons p ps)
  have step: "fst (forEachBody mm cur st p i) = fst st \<or> fst (forEachBody mm cur st p i) = int i"
    by (rule forEachBody_fst)
  from Cons.IH [of "Suc i" "forEachBody mm cur st p i"] step
  show ?case by auto
qed

lemma nextPrayerIndex_range:
  assumes "ps \<noteq> []"
  shows "0 \<le> nextPrayerIndex now ps \<and> nextPrayerIndex now ps < int (length ps)"
proof -
  let ?cur = "Num (getHours now * 60 + getMinutes now)"
  let ?found = "fst (forEach (forEachBody (maghribMinutes ps) ?cur) ps 0 (- 1, PosInf))"
  have "?found = - 1 \<or> (0 \<le> ?found \<and> ?found < int (length ps))"
    using forEach_index_range [of "maghribMinutes ps" ?cur ps 0 "(- 1, PosInf)"] by simp
  moreover have "0 < int (length ps)" using assms by simp
  ultimately show ?thesis by (auto simp add: nextPrayerIndex_def Let_def)
qed

text \<open>
  The final \<open>map\<close> writes the flags and nothing else.
\<close>

lemma count_mark:
  "length (filter (\<lambda>p. isNext p = Some True)
     (mapIdx (\<lambda>p idx. p\<lparr>isNext := Some (int idx = k)\<rparr>) ps i)) =
   (if int i \<le> k \<and> k < int i + int (length ps) then 1 else 0)"
proof (induction ps arbitrary: i)
  case Nil
  then show ?case by simp
next
  case (Cons p ps)
  let ?rest = "length (filter (\<lambda>p. isNext p = Some True)
     (mapIdx (\<lambda>p idx. p\<lparr>isNext := Some (int idx = k)\<rparr>) ps (Suc i)))"
  have rest: "?rest = (if int (Suc i) \<le> k \<and> k < int (Suc i) + int (length ps) then 1 else 0)"
    by (rule Cons.IH)
  show ?case
  proof (cases "int i = k")
    case True
    with rest have "?rest = 0" by simp
    with True show ?thesis by simp
  next
    case False
    with rest show ?thesis by (simp del: length_0_conv)
  qed
qed

lemma mapIdx_fields:
  "map name (mapIdx (\<lambda>p idx. p\<lparr>isNext := f p idx\<rparr>) ps i) = map name ps"
  "map nameArabic (mapIdx (\<lambda>p idx. p\<lparr>isNext := f p idx\<rparr>) ps i) = map nameArabic ps"
  "map time (mapIdx (\<lambda>p idx. p\<lparr>isNext := f p idx\<rparr>) ps i) = map time ps"
  by (induction ps arbitrary: i) auto

lemma mapIdx_length: "length (mapIdx f ps i) = length ps"
  by (induction ps arbitrary: i) auto

lemma mapIdx_none:
  "k < int i \<Longrightarrow>
   map isNext (mapIdx (\<lambda>p idx. p\<lparr>isNext := Some (int idx = k)\<rparr>) ps i) =
   replicate (length ps) (Some False)"
  by (induction ps arbitrary: i) auto

lemma forEach_nothing_later:
  "\<forall>p \<in> set ps. \<not> jgt (prayerMinutes mm p) cur \<Longrightarrow>
   forEach (forEachBody mm cur) ps i st = st"
  by (induction ps arbitrary: i st) (auto simp add: forEachBody_def Let_def)

lemma find_isMaghrib_None:
  "\<forall>p \<in> set ps. toLowerCase (name p) \<noteq> str ''maghrib'' \<and>
      \<not> includes_str (nameArabic p) label_maghrib \<Longrightarrow> find isMaghrib ps = None"
  by (induction ps) (auto simp add: isMaghrib_def)

lemma isNightPrayer_names:
  "name p = str ''Isha'' \<or> name p = str ''Midnight'' \<or> name p = str ''LastThird'' \<or>
   includes_str (nameArabic p) label_isha \<or> includes_str (nameArabic p) label_midnight \<or>
   includes_str (nameArabic p) label_lastThird \<Longrightarrow> isNightPrayer p"
  by (auto simp add: isNightPrayer_def)

text \<open>
  The definitions to unfold when a schedule is evaluated.
\<close>

lemmas prayer_eval =
  markNextPrayer_def nextPrayerIndex_def maghribMinutes_def isMaghrib_def
  toLowerCase_def lowerUnit_def str_def forEachBody_def prayerMinutes_def parseMinutes_def
  Number_def isDigit_def isNightPrayer_def jgt_def Let_def mkPrayer_def
  label_maghrib_def label_isha_def label_midnight_def label_lastThird_def

subsection \<open>Night entries are moved to the next day\<close>

text \<open>
  Claim C1. With the viewed day being today, an entry named Isha, Midnight or LastThird,
  or whose Arabic label holds one of the three labels, and whose minutes are below those
  of Maghrib, enters the comparison of the loop with 1440 added. For the schedule
  Maghrib 18:00, Isha 19:20, Midnight 23:45, LastThird 01:15 at 20:00 the entry flagged
  next is Midnight, whatever the Arabic labels and the other fields are.
\<close>

theorem night_entries_shifted_by_a_day:
  "((name p = str ''Isha'' \<or> name p = str ''Midnight'' \<or> name p = str ''LastThird'' \<or>
     includes_str (nameArabic p) label_isha \<or> includes_str (nameArabic p) label_midnight \<or>
     includes_str (nameArabic p) label_lastThird) \<and>
    jlt (parseMinutes (time p)) (maghribMinutes ps) \<longrightarrow>
      prayerMinutes (maghribMinutes ps) p = jadd (parseMinutes (time p)) (Num 1440) \<and>
      forEachBody (maghribMinutes ps) cur st p idx =
        (if jgt (jadd (parseMinutes (time p)) (Num 1440)) cur \<and>
            jlt (jsub (jadd (parseMinutes (time p)) (Num 1440)) cur) (snd st)
         then (int idx, jsub (jadd (parseMinutes (time p)) (Num 1440)) cur) else st)) \<and>
   map isNext (prayers (markNextPrayer (now\<lparr>getHours := 20, getMinutes := 0\<rparr>)
     (d\<lparr>prayers :=
        [\<lparr>name = str ''Maghrib'', nameArabic = a1, time = str ''18:00'', isNext = n1\<rparr>,
         \<lparr>name = str ''Isha'', nameArabic = a2, time = str ''19:20'', isNext = n2\<rparr>,
         \<lparr>name = str ''Midnight'', nameArabic = a3, time = str ''23:45'', isNext = n3\<rparr>,
         \<lparr>name = str ''LastThird'', nameArabic = a4, time = str ''01:15'', isNext = n4\<rparr>]\<rparr>)
     (t\<lparr>toDateString := toDateString now\<rparr>))) =
   [Some False, Some False, Some True, Some False]"
proof (intro conjI impI)
  assume h: "(name p = str ''Isha'' \<or> name p = str ''Midnight'' \<or> name p = str ''LastThird'' \<or>
     includes_str (nameArabic p) label_isha \<or> includes_str (nameArabic p) label_midnight \<or>
     includes_str (nameArabic p) label_lastThird) \<and>
    jlt (parseMinutes (time p)) (maghribMinutes ps)"
  then have night: "isNightPrayer p" by (simp add: isNightPrayer_names)
  from h night show pm: "prayerMinutes (maghribMinutes ps) p = jadd (parseMinutes (time p)) (Num 1440)"
    by (simp add: prayerMinutes_def Let_def)
  show "forEachBody (maghribMinutes ps) cur st p idx =
        (if jgt (jadd (parseMinutes (time p)) (Num 1440)) cur \<and>
            jlt (jsub (jadd (parseMinutes (time p)) (Num 1440)) cur) (snd st)
         then (int idx, jsub (jadd (parseMinutes (time p)) (Num 1440)) cur) else st)"
    unfolding forEachBody_def pm by (simp add: Let_def)
next
  show "map isNext (prayers (markNextPrayer (now\<lparr>getHours := 20, getMinutes := 0\<rparr>)
     (d\<lparr>prayers :=
        [\<lparr>name = str ''Maghrib'', nameArabic = a1, time = str ''18:00'', isNext = n1\<rparr>,
         \<lparr>name = str ''Isha'', nameArabic = a2, time = str ''19:20'', isNext = n2\<rparr>,
         \<lparr>name = str ''Midnight'', nameArabic = a3, time = str ''23:45'', isNext = n3\<rparr>,
         \<lparr>name = str ''LastThird'', nameArabic = a4, time = str ''01:15'', isNext = n4\<rparr>]\<rparr>)
     (t\<lparr>toDateString := toDateString now\<rparr>))) =
   [Some False, Some False, Some True, Some False]"
    by (simp add: prayer_eval)
qed

text \<open>
  The LastThird entry of the fallback schedule, 01:15 against Maghrib at 18:05, is
  compared as minute 1515.
\<close>

theorem night_entries_shifted_by_a_day_witness:
  "jlt (parseMinutes (str ''01:15'')) (maghribMinutes (prayers FALLBACK_DATA)) \<and>
   prayerMinutes (maghribMinutes (prayers FALLBACK_DATA)) (mkPrayer ''LastThird'' label_lastThird ''01:15'') = Num 1515"
proof -
  have h: "jlt (parseMinutes (str ''01:15'')) (maghribMinutes (prayers FALLBACK_DATA))"
    by (simp add: FALLBACK_DATA_def prayer_eval)
  have e: "jadd (parseMinutes (str ''01:15'')) (Num 1440) = Num 1515"
    by (simp add: prayer_eval)
  from night_entries_shifted_by_a_day
    [of "mkPrayer ''LastThird'' label_lastThird ''01:15''" "prayers FALLBACK_DATA"]
  show ?thesis using h e by (simp add: mkPrayer_def)
qed

subsection \<open>Nothing left today\<close>

text \<open>
  Claim C6. With the viewed day being today and a schedule that is not empty, if no
  entry has adjusted minutes above the current minutes, then the entry at index 0 is the
  one flagged next; the function returns as in every other case.
\<close>

theorem wrap_to_first_entry:
  assumes today: "toDateString targetDate = toDateString now"
    and nonempty: "prayers data \<noteq> []"
    and none_later: "\<forall>p \<in> set (prayers data).
          \<not> jgt (prayerMinutes (maghribMinutes (prayers data)) p)
                (Num (getHours now * 60 + getMinutes now))"
  shows "nextPrayerIndex now (prayers data) = 0 \<and>
         map isNext (prayers (markNextPrayer now data targetDate)) =
           Some True # replicate (length (prayers data) - 1) (Some False)"
proof -
  let ?ps = "prayers data"
  let ?cur = "Num (getHours now * 60 + getMinutes now)"
  have "forEach (forEachBody (maghribMinutes ?ps) ?cur) ?ps 0 (- 1, PosInf) = (- 1, PosInf)"
    using none_later by (rule forEach_nothing_later)
  then have idx: "nextPrayerIndex now ?ps = 0"
    by (simp add: nextPrayerIndex_def)
  from nonempty obtain p rest where ps: "?ps = p # rest" by (cases ?ps) auto
  have "map isNext (mapIdx (\<lambda>p idx. p\<lparr>isNext := Some (int idx = 0)\<rparr>) rest (Suc 0)) =
        replicate (length rest) (Some False)"
    by (rule mapIdx_none) simp
  then have "map isNext (mapIdx (\<lambda>p idx. p\<lparr>isNext := Some (int idx = 0)\<rparr>) ?ps 0) =
        Some True # replicate (length ?ps - 1) (Some False)"
    by (simp add: ps)
  with today idx show ?thesis by (simp add: markNextPrayer_def)
qed

text \<open>
  The fallback schedule cut after Isha, at 20:00: Fajr is flagged.
\<close>

theorem wrap_to_first_entry_witness:
  "map isNext (prayers (markNextPrayer
      \<lparr>toDateString = str ''Fri Jan 02 2026'', getHours = 20, getMinutes = 0\<rparr>
      (FALLBACK_DATA\<lparr>prayers := take 7 (prayers FALLBACK_DATA)\<rparr>)
      \<lparr>toDateString = str ''Fri Jan 02 2026'', getHours = 0, getMinutes = 0\<rparr>)) =
    [Some True, Some False, Some False, Some False, Some False, Some False, Some False]"
proof -
  let ?now = "\<lparr>toDateString = str ''Fri Jan 02 2026'', getHours = 20, getMinutes = 0\<rparr>"
  let ?t = "\<lparr>toDateString = str ''Fri Jan 02 2026'', getHours = 0, getMinutes = 0\<rparr>"
  let ?d = "FALLBACK_DATA\<lparr>prayers := take 7 (prayers FALLBACK_DATA)\<rparr>"
  have ps: "prayers ?d = take 7 (prayers FALLBACK_DATA)" by simp
  have a: "toDateString ?t = toDateString ?now" by simp
  have b: "prayers ?d \<noteq> []" by (simp add: FALLBACK_DATA_def)
  have c: "\<forall>p \<in> set (prayers ?d).
          \<not> jgt (prayerMinutes (maghribMinutes (prayers ?d)) p)
                (Num (getHours ?now * 60 + getMinutes ?now))"
    by (simp add: FALLBACK_DATA_def prayer_eval)
  have len: "length (prayers ?d) = 7" by (simp add: FALLBACK_DATA_def)
  from wrap_to_first_entry [OF a b c] show ?thesis
    unfolding len by (simp add: numeral_eq_Suc)
qed

subsection \<open>The number of flagged entries\<close>

text \<open>
  Claim C7. For a schedule that is not empty and any clock reading, the result has
  exactly one entry flagged next when the viewed day is today and none when it is not.
\<close>

theorem exactly_one_next_today_none_otherwise:
  assumes "prayers data \<noteq> []"
  shows "length (filter (\<lambda>p. isNext p = Some True) (prayers (markNextPrayer now data targetDate))) =
         (if toDateString targetDate = toDateString now then 1 else 0)"
proof (cases "toDateString targetDate = toDateString now")
  case True
  have "0 \<le> nextPrayerIndex now (prayers data) \<and>
        nextPrayerIndex now (prayers data) < int (length (prayers data))"
    using assms by (rule nextPrayerIndex_range)
  with True show ?thesis by (simp add: markNextPrayer_def count_mark)
next
  case False
  have "filter (\<lambda>p. isNext p = Some True) (map (\<lambda>p. p\<lparr>isNext := Some False\<rparr>) ps) = []" for ps
    by (induction ps) auto
  with False show ?thesis by (simp add: markNextPrayer_def)
qed

text \<open>
  The fallback schedule at 20:00, viewed on the same day and on the day after.
\<close>

theorem exactly_one_next_today_none_otherwise_witness:
  "length (filter (\<lambda>p. isNext p = Some True) (prayers (markNextPrayer
      \<lparr>toDateString = str ''Fri Jan 02 2026'', getHours = 20, getMinutes = 0\<rparr> FALLBACK_DATA
      \<lparr>toDateString = str ''Fri Jan 02 2026'', getHours = 0, getMinutes = 0\<rparr>))) = 1 \<and>
   length (filter (\<lambda>p. isNext p = Some True) (prayers (markNextPrayer
      \<lparr>toDateString = str ''Fri Jan 02 2026'', getHours = 20, getMinutes = 0\<rparr> FALLBACK_DATA
      \<lparr>toDateString = str ''Sat Jan 03 2026'', getHours = 0, getMinutes = 0\<rparr>))) = 0"
proof -
  have ne: "prayers FALLBACK_DATA \<noteq> []" by (simp add: FALLBACK_DATA_def)
  have neq: "str ''Sat Jan 03 2026'' \<noteq> str ''Fri Jan 02 2026''" by (simp add: str_def)
  from exactly_one_next_today_none_otherwise [OF ne,
      of "\<lparr>toDateString = str ''Fri Jan 02 2026'', getHours = 20, getMinutes = 0\<rparr>"
         "\<lparr>toDateString = str ''Fri Jan 02 2026'', getHours = 0, getMinutes = 0\<rparr>"]
    exactly_one_next_today_none_otherwise [OF ne,
      of "\<lparr>toDateString = str ''Fri Jan 02 2026'', getHours = 20, getMinutes = 0\<rparr>"
         "\<lparr>toDateString = str ''Sat Jan 03 2026'', getHours = 0, getMinutes = 0\<rparr>"]
    neq
  show ?thesis by simp
qed

subsection \<open>A schedule without Maghrib\<close>

text \<open>
  Claim C8. When no entry is recognised as Maghrib, neither by its name in any
  capitalisation nor by the Arabic label, the night boundary is 1080 minutes (18:00):
  the adjusted minutes of every entry and the selected index are those computed with
  1080. The function has no failing branch, so it returns a schedule of the same length.
\<close>

theorem missing_maghrib_defaults_to_1080:
  assumes "\<forall>p \<in> set (prayers data).
             toLowerCase (name p) \<noteq> str ''maghrib'' \<and>
             \<not> includes_str (nameArabic p) label_maghrib"
  shows "maghribMinutes (prayers data) = Num 1080 \<and>
         prayerMinutes (maghribMinutes (prayers data)) q =
           (if isNightPrayer q \<and> jlt (parseMinutes (time q)) (Num 1080)
            then jadd (parseMinutes (time q)) (Num 1440) else parseMinutes (time q)) \<and>
         nextPrayerIndex now (prayers data) =
           (let found = fst (forEach (forEachBody (Num 1080)
                               (Num (getHours now * 60 + getMinutes now)))
                             (prayers data) 0 (- 1, PosInf))
            in if found = - 1 then 0 else found) \<and>
         length (prayers (markNextPrayer now data targetDate)) = length (prayers data)"
proof -
  have "find isMaghrib (prayers data) = None"
    using assms by (rule find_isMaghrib_None)
  then have mm: "maghribMinutes (prayers data) = Num 1080"
    by (simp add: maghribMinutes_def)
  have len: "length (prayers (markNextPrayer now data targetDate)) = length (prayers data)"
    by (simp add: markNextPrayer_def mapIdx_length)
  show ?thesis
    by (simp add: mm len prayerMinutes_def nextPrayerIndex_def Let_def)
qed

text \<open>
  Fajr 04:15, Isha 19:20, LastThird 01:15 at 20:00: LastThird, moved to minute 1515
  by the boundary 1080, is the next entry.
\<close>

theorem missing_maghrib_defaults_to_1080_witness:
  "maghribMinutes [mkPrayer ''Fajr'' [] ''04:15'', mkPrayer ''Isha'' label_isha ''19:20'',
                   mkPrayer ''LastThird'' label_lastThird ''01:15''] = Num 1080 \<and>
   nextPrayerIndex \<lparr>toDateString = str ''Fri Jan 02 2026'', getHours = 20, getMinutes = 0\<rparr>
     [mkPrayer ''Fajr'' [] ''04:15'', mkPrayer ''Isha'' label_isha ''19:20'',
      mkPrayer ''LastThird'' label_lastThird ''01:15''] = 2"
proof -
  let ?ps = "[mkPrayer ''Fajr'' [] ''04:15'', mkPrayer ''Isha'' label_isha ''19:20'',
              mkPrayer ''LastThird'' label_lastThird ''01:15'']"
  let ?d = "FALLBACK_DATA\<lparr>prayers := ?ps\<rparr>"
  let ?now = "\<lparr>toDateString = str ''Fri Jan 02 2026'', getHours = 20, getMinutes = 0\<rparr>"
  have h: "\<forall>p \<in> set (prayers ?d).
             toLowerCase (name p) \<noteq> str ''maghrib'' \<and>
             \<not> includes_str (nameArabic p) label_maghrib"
    by (simp add: prayer_eval)
  have v: "(let found = fst (forEach (forEachBody (Num 1080)
                               (Num (getHours ?now * 60 + getMinutes ?now)))
                             ?ps 0 (- 1, PosInf))
            in if found = - 1 then 0 else found) = 2"
    by (simp add: prayer_eval)
  from missing_maghrib_defaults_to_1080 [OF h, of _ ?now] v
  show ?thesis by simp
qed

subsection \<open>What the function leaves alone\<close>

text \<open>
  Claim C10. The result lists the same entries in the same order: names, Arabic names
  and times are those of the input, entry by entry, and so is the length. Every field of
  the surrounding record other than the list of prayers is unchanged.
\<close>

theorem markNextPrayer_changes_flags_only:
  "map name (prayers (markNextPrayer now data targetDate)) = map name (prayers data) \<and>
   map nameArabic (prayers (markNextPrayer now data targetDate)) =
     map nameArabic (prayers data) \<and>
   map time (prayers (markNextPrayer now data targetDate)) = map time (prayers data) \<and>
   length (prayers (markNextPrayer now data targetDate)) = length (prayers data) \<and>
   gregorianDate (markNextPrayer now data targetDate) = gregorianDate data \<and>
   hijri (markNextPrayer now data targetDate) = hijri data \<and>
   city (markNextPrayer now data targetDate) = city data \<and>
   timezone (markNextPrayer now data targetDate) = timezone data \<and>
   quote (markNextPrayer now data targetDate) = quote data \<and>
   markNextPrayer now data targetDate =
     data\<lparr>prayers := prayers (markNextPrayer now data targetDate)\<rparr>"
  by (simp add: markNextPrayer_def mapIdx_fields mapIdx_length comp_def)


section \<open>Properties of the compass\<close>

subsection \<open>Auxiliary facts\<close>

text \<open>
  The three fields \<open>handleOrientation\<close> writes, and the branches of the heading source.
\<close>

lemma handleOrientation_fields:
  "rawHeading (handleOrientation e st) = compassOf e"
  "lastHeadingRef (handleOrientation e st) = compassOf e"
  "smoothHeading (handleOrientation e st) =
     smoothHeading st +
     (let delta = compassOf e - lastHeadingRef st in
      if delta < - 180 then delta + 360 else if delta > 180 then delta - 360 else delta)"
  by (simp_all add: handleOrientation_def Let_def)

lemma compassOf_cases:
  "compassOf e =
     (case webkitCompassHeading e of
        Some h \<Rightarrow> if h \<noteq> 0 then h else (case alpha e of Some a \<Rightarrow> \<bar>a - 360\<bar> | None \<Rightarrow> 0)
      | None \<Rightarrow> (case alpha e of Some a \<Rightarrow> \<bar>a - 360\<bar> | None \<Rightarrow> 0))"
  by (auto simp add: compassOf_def truthy_def split: option.splits)

text \<open>
  The definitions to unfold when the arithmetic of \<open>calculateQibla\<close> is evaluated, and
  the part of \<open>calculateQibla\<close> that follows the haversine term.
\<close>

lemmas dbl_ops = fadd_def fsub_def fmul_def toRad_def toDeg_def jsRound_def

lemma calculateQibla_term:
  "distance (calculateQibla P lat lng st) =
     jsRound (fmul P (D 6371) (fmul P (D 2)
       (num2 (Math_atan2 P) (jsSqrt P (haversine_a P lat lng))
          (jsSqrt P (fsub P (D 1) (haversine_a P lat lng))))))"
  by (simp add: calculateQibla_def haversine_a_def Let_def)

subsection \<open>The heading filter\<close>

text \<open>
  Claim C2. One sample changes the accumulated heading by \<open>currentRaw - previousRaw\<close>,
  with 360 added when that is below -180 and 360 subtracted when it is above 180, and
  stores the sample as the previous one. After a reset, the samples 10 and 350 leave
  the accumulated heading at -10, strictly between -360 and 0.
\<close>

theorem heading_filter_short_way:
  "smoothHeading (handleOrientation e st) - smoothHeading st =
     (let delta = compassOf e - lastHeadingRef st in
      if delta < - 180 then delta + 360 else if delta > 180 then delta - 360 else delta) \<and>
   lastHeadingRef (handleOrientation e st) = compassOf e \<and>
   (compassOf e1 = 10 \<and> compassOf e2 = 350 \<longrightarrow>
      smoothHeading (handleAll [e1, e2] (resetHeading st0)) = - 10 \<and>
      - 360 < smoothHeading (handleAll [e1, e2] (resetHeading st0)) \<and>
      smoothHeading (handleAll [e1, e2] (resetHeading st0)) < 0)"
proof (intro conjI impI)
  show "smoothHeading (handleOrientation e st) - smoothHeading st =
     (let delta = compassOf e - lastHeadingRef st in
      if delta < - 180 then delta + 360 else if delta > 180 then delta - 360 else delta)"
    by (simp add: handleOrientation_fields)
  show "lastHeadingRef (handleOrientation e st) = compassOf e"
    by (simp add: handleOrientation_fields)
next
  assume h: "compassOf e1 = 10 \<and> compassOf e2 = 350"
  then show v: "smoothHeading (handleAll [e1, e2] (resetHeading st0)) = - 10"
    by (simp add: handleAll_def handleOrientation_fields resetHeading_def)
  from v show "- 360 < smoothHeading (handleAll [e1, e2] (resetHeading st0))" by simp
  from v show "smoothHeading (handleAll [e1, e2] (resetHeading st0)) < 0" by simp
qed

text \<open>
  A WebKit heading of 10 followed by an absolute alpha of 10, which reads as 350.
\<close>

theorem heading_filter_short_way_witness:
  "compassOf \<lparr>webkitCompassHeading = Some 10, absolute = False, alpha = None\<rparr> = 10 \<and>
   compassOf \<lparr>webkitCompassHeading = None, absolute = True, alpha = Some 10\<rparr> = 350 \<and>
   smoothHeading (handleAll
     [\<lparr>webkitCompassHeading = Some 10, absolute = False, alpha = None\<rparr>,
      \<lparr>webkitCompassHeading = None, absolute = True, alpha = Some 10\<rparr>]
     (resetHeading initialState)) = - 10"
proof -
  have a: "compassOf \<lparr>webkitCompassHeading = Some 10, absolute = False, alpha = None\<rparr> = 10"
    by (simp add: compassOf_def truthy_def)
  have b: "compassOf \<lparr>webkitCompassHeading = None, absolute = True, alpha = Some 10\<rparr> = 350"
    by (simp add: compassOf_def truthy_def)
  from heading_filter_short_way
    [of _ _ "\<lparr>webkitCompassHeading = Some 10, absolute = False, alpha = None\<rparr>"
        "\<lparr>webkitCompassHeading = None, absolute = True, alpha = Some 10\<rparr>" initialState]
    a b
  show ?thesis by simp
qed

subsection \<open>The source of the heading\<close>

text \<open>
  Claim C4. The claim gives the WebKit compass heading the first rank whenever the field
  is present. The source tests the field for truth, which fails for a heading of exactly
  0 (true north): the event with WebKit heading 0 and alpha 90 is read as 270, from
  alpha, in place of 0.
\<close>

theorem zero_webkit_heading_falls_through:
  "webkitCompassHeading \<lparr>webkitCompassHeading = Some 0, absolute = False, alpha = Some 90\<rparr>
     = Some 0 \<and>
   compassOf \<lparr>webkitCompassHeading = Some 0, absolute = False, alpha = Some 90\<rparr> = 270 \<and>
   rawHeading (handleOrientation
     \<lparr>webkitCompassHeading = Some 0, absolute = False, alpha = Some 90\<rparr> initialState) = 270"
  by (simp add: handleOrientation_fields compassOf_def truthy_def)

subsection \<open>The heading shown as a number\<close>

text \<open>
  Claim C5, as stated, fails: an event without WebKit heading and with alpha 0 stores
  the raw heading 360, which is not below 360.
\<close>

theorem raw_heading_360_at_alpha_zero:
  "alpha \<lparr>webkitCompassHeading = None, absolute = True, alpha = Some 0\<rparr> = Some 0 \<and>
   rawHeading (handleOrientation
        \<lparr>webkitCompassHeading = None, absolute = True, alpha = Some 0\<rparr> initialState) = 360 \<and>
   \<not> rawHeading (handleOrientation
        \<lparr>webkitCompassHeading = None, absolute = True, alpha = Some 0\<rparr> initialState) < 360"
  by (simp add: handleOrientation_fields compassOf_def truthy_def)

text \<open>
  Claim C5, amended. For an event without a WebKit heading and with alpha in
  \<open>[0, 360)\<close>, the raw heading stored is \<open>360 - alpha\<close> and lies in \<open>(0, 360]\<close>.
\<close>

theorem raw_heading_from_alpha:
  assumes "webkitCompassHeading e = None" and "alpha e = Some a" and "0 \<le> a" and "a < 360"
  shows "rawHeading (handleOrientation e st) = 360 - a \<and>
         0 < rawHeading (handleOrientation e st) \<and>
         rawHeading (handleOrientation e st) \<le> 360"
  using assms by (simp add: handleOrientation_def Let_def compassOf_def truthy_def)

text \<open>
  Alpha 90 without WebKit heading is stored as 270.
\<close>

theorem raw_heading_from_alpha_witness:
  "rawHeading (handleOrientation
      \<lparr>webkitCompassHeading = None, absolute = False, alpha = Some 90\<rparr> initialState) = 270 \<and>
   0 < rawHeading (handleOrientation
      \<lparr>webkitCompassHeading = None, absolute = False, alpha = Some 90\<rparr> initialState) \<and>
   rawHeading (handleOrientation
      \<lparr>webkitCompassHeading = None, absolute = False, alpha = Some 90\<rparr> initialState) \<le> 360"
  using raw_heading_from_alpha
    [of "\<lparr>webkitCompassHeading = None, absolute = False, alpha = Some 90\<rparr>" 90 initialState]
  by simp

subsection \<open>The observer at the Kaaba\<close>

text \<open>
  Claim C9. An observer standing at the Kaaba's coordinates gets bearing 0 and distance
  0 from the general formulas, on every platform that keeps to IEEE 754 and ECMAScript;
  no branch of the source treats the case apart. Rounding does not enter: the two
  products in \<open>x\<close> are the same product, and every other term is 0.
\<close>

theorem observer_at_kaaba:
  assumes "ieee_ecma P"
  shows "qiblaBearing (calculateQibla P (KAABA_LAT P) (KAABA_LNG P) st) = D 0 \<and>
         distance (calculateQibla P (KAABA_LAT P) (KAABA_LNG P) st) = D 0"
proof -
  from assms have r: "rnd P 0 = 0" "rnd P 1 = 1" "rnd P 360 = 360"
      "\<And>x. rnd P (rnd P x) = rnd P x"
    and m: "Math_PI P \<noteq> 0" "Math_sin P 0 = 0" "Math_cos P 0 = 1" "Math_sqrt P 0 = 0"
      "Math_sqrt P 1 = 1" "Math_atan2 P 0 0 = 0" "Math_atan2 P 0 1 = 0"
    by (auto simp add: ieee_ecma_def)
  have mod: "fmod 360 360 = 0" by (simp add: fmod_def)
  have rd: "js_round 0 = 0" by (simp add: js_round_def)
  show ?thesis
    by (simp add: calculateQibla_def Let_def dbl_ops KAABA_LAT_def KAABA_LNG_def r m mod rd
        mult.commute)
qed

text \<open>
  In exact arithmetic, from any state.
\<close>

theorem observer_at_kaaba_witness:
  "ieee_ecma exactPlatform \<and>
   (\<forall>st. qiblaBearing (calculateQibla exactPlatform (D 21.422487) (D 39.826206) st) = D 0 \<and>
         distance (calculateQibla exactPlatform (D 21.422487) (D 39.826206) st) = D 0)"
proof -
  have h: "ieee_ecma exactPlatform"
    by (simp add: ieee_ecma_def exactPlatform_def atan2_def)
  have k: "KAABA_LAT exactPlatform = D 21.422487" "KAABA_LNG exactPlatform = D 39.826206"
    by (simp_all add: KAABA_LAT_def KAABA_LNG_def exactPlatform_def)
  from observer_at_kaaba [OF h] h show ?thesis by (simp add: k)
qed

subsection \<open>The distance when rounding lifts the haversine term above 1\<close>

text \<open>
  Claim C3 says that the distance stored is never negative. The source takes the square
  root of \<open>1 - a\<close> without keeping the haversine term \<open>a\<close> within \<open>[0, 1]\<close>
  (lines 134-141). On paper \<open>a\<close> reaches 1 at the point opposite the Kaaba; when
  rounding brings the term the platform computes above 1, \<open>1 - a\<close> is negative, its
  square root is \<open>NaN\<close> and \<open>NaN\<close> is the distance stored, which is not a number
  at or above 0.
\<close>

theorem distance_NaN_when_term_exceeds_one:
  assumes "haversine_a P lat lng = D a" and "1 < a" and "\<forall>x. x < 0 \<longrightarrow> rnd P x < 0"
  shows "distance (calculateQibla P lat lng st) = DNaN"
proof -
  have "1 - a < 0" using assms(2) by simp
  with assms(3) have "rnd P (1 - a) < 0" by blast
  then have "jsSqrt P (fsub P (D 1) (D a)) = DNaN" by (simp add: fsub_def)
  then show ?thesis
    by (simp add: calculateQibla_term assms(1) fmul_def jsRound_def)
qed

text \<open>
  The point opposite the Kaaba, on a platform that is exact but for a sine that comes
  out too high by \<open>2^-52\<close>, an error ECMAScript allows.
\<close>

theorem distance_NaN_when_term_exceeds_one_witness:
  "distance (calculateQibla (exactPlatform\<lparr>Math_sin := (\<lambda>x. sin x + 1 / 2 ^ 52)\<rparr>)
      (D (- 21.422487)) (D (- 140.173794)) initialState) = DNaN"
proof -
  let ?P = "exactPlatform\<lparr>Math_sin := (\<lambda>x. sin x + 1 / 2 ^ 52)\<rparr>"
  define p :: real where "p = 21.422487 * pi / 180"
  define e :: real where "e = 1 / 2 ^ 52"
  define a where "a = (sin p + e) * (sin p + e) + cos p * cos p * (1 + e) * (1 + e)"
  have ha: "haversine_a ?P (D (- 21.422487)) (D (- 140.173794)) = D a"
    unfolding haversine_a_def Let_def dbl_ops exactPlatform_def KAABA_LAT_def KAABA_LNG_def
    by (simp add: a_def e_def p_def)
  have e0: "0 < e" by (simp add: e_def)
  have "0 \<le> p" by (simp add: p_def)
  moreover have "p \<le> pi" using pi_gt_zero by (simp add: p_def)
  ultimately have s0: "0 \<le> sin p" by (rule sin_ge_zero)
  have A: "sin p * sin p < (sin p + e) * (sin p + e)"
    using s0 e0 by (simp add: algebra_simps add_pos_nonneg)
  have "cos p * cos p * 1 \<le> cos p * cos p * ((1 + e) * (1 + e))"
    using e0 by (intro mult_left_mono) (simp_all add: algebra_simps)
  then have B: "cos p * cos p \<le> cos p * cos p * (1 + e) * (1 + e)"
    by (simp add: mult.assoc)
  have C: "sin p * sin p + cos p * cos p = 1"
    using sin_cos_squared_add [of p] by (simp add: power2_eq_square)
  have "1 < (sin p + e) * (sin p + e) + cos p * cos p * (1 + e) * (1 + e)"
    using A B C by linarith
  then have "1 < a" by (simp only: a_def)
  moreover have "\<forall>x. x < 0 \<longrightarrow> rnd ?P x < 0" by (simp add: exactPlatform_def)
  ultimately show ?thesis using ha by (intro distance_NaN_when_term_exceeds_one) auto
qed

subsection \<open>Bearing and distance in exact arithmetic\<close>

text \<open>
  The range of \<open>atan2\<close>, of the remainder by 360 and of rounding to a whole number.
\<close>

lemma atan2_lower: "- pi < atan2 y x"
proof -
  have a: "arctan (y / x) < pi / 2" by (rule arctan_ubound)
  have b: "- (pi / 2) < arctan (y / x)" by (rule arctan_lbound)
  have c: "x < 0 \<Longrightarrow> y < 0 \<Longrightarrow> 0 < arctan (y / x)"
    by (simp add: divide_neg_neg zero_less_arctan_iff)
  from a b c pi_gt_zero show ?thesis by (auto simp add: atan2_def)
qed

lemma atan2_nonneg:
  assumes y: "0 \<le> y"
  shows "0 \<le> atan2 y x"
proof -
  consider "0 < x" | "x < 0" | "x = 0" by linarith
  then show ?thesis
  proof cases
    case 1
    then have "0 \<le> arctan (y / x)" using y by (simp add: zero_le_arctan_iff)
    with 1 show ?thesis by (simp add: atan2_def)
  next
    case 2
    have "- (pi / 2) < arctan (y / x)" by (rule arctan_lbound)
    then have "0 \<le> arctan (y / x) + pi" using pi_gt_zero by linarith
    with 2 y show ?thesis by (simp add: atan2_def)
  next
    case 3
    with y pi_gt_zero show ?thesis by (simp add: atan2_def)
  qed
qed

lemma fmod_360_range:
  assumes "0 \<le> a"
  shows "0 \<le> fmod a 360 \<and> fmod a 360 < 360"
proof -
  have q: "0 \<le> a / 360" using assms by simp
  have lo: "of_int \<lfloor>a / 360\<rfloor> * 360 \<le> a"
    using floor_divide_lower [of 360 a] by simp
  have hi: "a < (of_int \<lfloor>a / 360\<rfloor> + 1) * 360"
    using floor_divide_upper [of 360 a] by simp
  from q lo hi show ?thesis by (simp add: fmod_def algebra_simps)
qed

lemma js_round_nonneg: "0 \<le> d \<Longrightarrow> 0 \<le> js_round d"
  by (simp add: js_round_def)

lemma degrees_half_turn:
  assumes "- 90 \<le> lat" and "lat \<le> 90"
  shows "- (pi / 2) \<le> lat * pi / 180 \<and> lat * pi / 180 \<le> pi / 2"
proof -
  have lo: "(- 90) * pi \<le> lat * pi"
    using assms(1) pi_gt_zero by (intro mult_right_mono) simp_all
  have hi: "lat * pi \<le> 90 * pi"
    using assms(2) pi_gt_zero by (intro mult_right_mono) simp_all
  from lo hi show ?thesis by simp
qed

text \<open>
  On paper the haversine term lies in \<open>[0, 1]\<close> when both cosines are not negative.
\<close>

lemma haversine_exact_unit:
  fixes p1 p2 l :: real
  assumes c1: "0 \<le> cos p1" and c2: "0 \<le> cos p2"
  shows "0 \<le> sin ((p2 - p1) / 2) * sin ((p2 - p1) / 2) +
               cos p1 * cos p2 * sin (l / 2) * sin (l / 2) \<and>
         sin ((p2 - p1) / 2) * sin ((p2 - p1) / 2) +
               cos p1 * cos p2 * sin (l / 2) * sin (l / 2) \<le> 1"
proof -
  define s where "s = sin ((p2 - p1) / 2)"
  define t where "t = sin (l / 2)"
  define C where "C = cos p1 * cos p2"
  have a: "sin ((p2 - p1) / 2) * sin ((p2 - p1) / 2) +
               cos p1 * cos p2 * sin (l / 2) * sin (l / 2) = s * s + C * (t * t)"
    by (simp add: s_def t_def C_def algebra_simps)
  have C0: "0 \<le> C" unfolding C_def using c1 c2 by (rule mult_nonneg_nonneg)
  have t1: "t * t \<le> 1"
    using abs_sin_le_one [of "l / 2"]
    by (simp add: t_def abs_square_le_1 power2_eq_square [symmetric])
  have t0: "0 \<le> t * t" by simp
  have dbl: "2 * ((p2 - p1) / 2) = p2 - p1" by (simp add: field_simps)
  have "cos (p2 - p1) = cos (2 * ((p2 - p1) / 2))" by (simp only: dbl)
  also have "\<dots> = 1 - 2 * (s * s)"
    unfolding s_def by (simp only: cos_double_sin power2_eq_square)
  finally have ss: "s * s = (1 - cos (p2 - p1)) / 2" by simp
  have cd: "cos (p2 - p1) = C + sin p1 * sin p2"
    by (simp add: cos_diff C_def algebra_simps)
  have ca: "cos (p2 + p1) = C - sin p1 * sin p2"
    by (simp add: cos_add C_def algebra_simps)
  have lo: "0 \<le> s * s + C * (t * t)"
    using C0 t0 by (simp add: mult_nonneg_nonneg)
  have "C * (t * t) \<le> C * 1" using C0 t1 by (rule mult_left_mono[rotated])
  then have "s * s + C * (t * t) \<le> s * s + C" by simp
  also have "\<dots> = (1 - (C + sin p1 * sin p2)) / 2 + C" by (simp only: ss cd)
  also have "\<dots> = (1 + (C - sin p1 * sin p2)) / 2" by (simp add: field_simps)
  also have "\<dots> = (1 + cos (p2 + p1)) / 2" by (simp only: ca)
  also have "\<dots> \<le> 1" using cos_le_one [of "p2 + p1"] by simp
  finally have hi: "s * s + C * (t * t) \<le> 1" .
  from lo hi show ?thesis by (simp only: a)
qed

text \<open>
  With nothing rounded, a latitude in \<open>[-90, 90]\<close> gives a bearing in \<open>[0, 360)\<close>
  and a distance that is not negative: the formulas are right, and \<open>NaN\<close> comes from
  rounding alone.
\<close>

lemma exact_arithmetic_range:
  assumes "- 90 \<le> lat" and "lat \<le> 90"
  shows "\<exists>b d. qiblaBearing (calculateQibla exactPlatform (D lat) (D lng) st) = D b \<and>
               0 \<le> b \<and> b < 360 \<and>
               distance (calculateQibla exactPlatform (D lat) (D lng) st) = D d \<and> 0 \<le> d"
proof -
  define p1 where "p1 = lat * pi / 180"
  define p2 where "p2 = 21.422487 * pi / 180"
  define l where "l = 39.826206 * pi / 180 - lng * pi / 180"
  define a where "a = sin ((p2 - p1) / 2) * sin ((p2 - p1) / 2) +
               cos p1 * cos p2 * sin (l / 2) * sin (l / 2)"
  define y where "y = sin ((39.826206 - lng) * pi / 180) * cos p2"
  define x where "x = cos p1 * sin p2 - sin p1 * cos p2 * cos ((39.826206 - lng) * pi / 180)"
  have c1: "0 \<le> cos p1"
    using degrees_half_turn [OF assms] by (simp add: p1_def cos_ge_zero)
  have c2: "0 \<le> cos p2"
    using degrees_half_turn [of "21.422487"] by (simp add: p2_def cos_ge_zero)
  have a01: "0 \<le> a \<and> a \<le> 1"
    unfolding a_def using c1 c2 by (rule haversine_exact_unit)
  have ha: "haversine_a exactPlatform (D lat) (D lng) = D a"
    by (simp add: haversine_a_def Let_def dbl_ops exactPlatform_def KAABA_LAT_def KAABA_LNG_def
        a_def p1_def p2_def l_def)
  have bear: "qiblaBearing (calculateQibla exactPlatform (D lat) (D lng) st) =
      D (fmod (atan2 y x * 180 / pi + 360) 360)"
    by (simp add: calculateQibla_def Let_def dbl_ops exactPlatform_def KAABA_LAT_def KAABA_LNG_def
        x_def y_def p1_def p2_def)
  have "- pi < atan2 y x" by (rule atan2_lower)
  then have "- 180 < atan2 y x * 180 / pi"
    using pi_gt_zero by (simp add: field_simps)
  then have "0 \<le> atan2 y x * 180 / pi + 360" by simp
  then have b: "0 \<le> fmod (atan2 y x * 180 / pi + 360) 360 \<and>
      fmod (atan2 y x * 180 / pi + 360) 360 < 360"
    by (rule fmod_360_range)
  have dist: "distance (calculateQibla exactPlatform (D lat) (D lng) st) =
      D (js_round (6371 * (2 * atan2 (sqrt a) (sqrt (1 - a)))))"
    unfolding calculateQibla_term ha using a01 by (simp add: dbl_ops exactPlatform_def)
  have "0 \<le> atan2 (sqrt a) (sqrt (1 - a))"
    using a01 by (intro atan2_nonneg) simp
  then have "0 \<le> 6371 * (2 * atan2 (sqrt a) (sqrt (1 - a)))" by simp
  then have d: "0 \<le> js_round (6371 * (2 * atan2 (sqrt a) (sqrt (1 - a))))"
    by (rule js_round_nonneg)
  from bear b dist d show ?thesis by blast
qed

end
